theory Spec2Isabelle
  imports Complex_Main "HOL-Library.Log_Nat"
begin

section \<open>Supply-chain graph generator: the model\<close>

text \<open>
  The generator is the class \<open>SupplyChainGenerator\<close> of
  \<open>Generator_Final_v1/data_generator.py\<close>. Python's unbounded integers are \<open>int\<close>.
  The module-level random source is made explicit: every primitive of \<open>random\<close> is a
  function of raw draws.
\<close>

subsection \<open>Errors\<close>

text \<open>Every exception of the modelled code is a value; a computation returns \<open>py_error + 'a\<close>.\<close>

datatype py_error = OverflowError | ValueError | KeyError | TypeError

definition then_do :: "'e + 'a \<Rightarrow> ('a \<Rightarrow> 'e + 'b) \<Rightarrow> 'e + 'b" where
  "then_do r f = (case r of Inl e \<Rightarrow> Inl e | Inr x \<Rightarrow> f x)"

subsection \<open>Binary64 arithmetic of \<open>int(n * ratio)\<close>\<close>

text \<open>
  The distribution planner multiplies a Python integer with a float literal and truncates.
  The product is modelled bit-exactly: a binary64 number is \<open>mant / 2 ^ expo\<close>,
  \<open>round53\<close> rounds a non-negative integer to 53 significant bits (nearest, ties to
  even), \<open>float_of_int\<close> is the conversion of the integer operand (it raises
  \<open>OverflowError\<close> beyond the binary64 range) and \<open>py_int\<close> is \<open>int()\<close>,
  truncation toward zero. The literals are the binary64 values of the decimal constants
  of the source.
\<close>

definition round53 :: "int \<Rightarrow> int" where
  "round53 x =
     (let l = bitlen x in
      if l \<le> 53 then x
      else let s = nat (l - 53); q = x div 2 ^ s; r = x mod 2 ^ s;
               q' = (if 2 ^ s < 2 * r \<or> (2 * r = 2 ^ s \<and> odd q) then q + 1 else q)
           in q' * 2 ^ s)"

record float64 =
  mant :: int
  expo :: nat


definition float_of_int :: "int \<Rightarrow> py_error + float64" where
  "float_of_int n =
     (let a = round53 \<bar>n\<bar> in
      if 2 ^ 1024 \<le> a then Inl OverflowError
      else Inr \<lparr>mant = sgn n * a, expo = 0\<rparr>)"

definition float_mul :: "float64 \<Rightarrow> float64 \<Rightarrow> float64" where
  "float_mul a b =
     \<lparr>mant = sgn (mant a) * sgn (mant b) * round53 (\<bar>mant a\<bar> * \<bar>mant b\<bar>),
      expo = expo a + expo b\<rparr>"

definition py_int :: "float64 \<Rightarrow> int" where
  "py_int f = sgn (mant f) * (\<bar>mant f\<bar> div 2 ^ expo f)"

definition int_times_float :: "int \<Rightarrow> float64 \<Rightarrow> py_error + int" where
  "int_times_float n r =
     (case float_of_int n of
        Inl e \<Rightarrow> Inl e
      | Inr a \<Rightarrow> Inr (py_int (float_mul a r)))"

definition lit_0_50 :: float64 where "lit_0_50 = \<lparr>mant = 1, expo = 1\<rparr>"
definition lit_0_25 :: float64 where "lit_0_25 = \<lparr>mant = 1, expo = 2\<rparr>"
definition lit_0_15 :: float64 where "lit_0_15 = \<lparr>mant = 5404319552844595, expo = 55\<rparr>"
definition lit_0_20 :: float64 where "lit_0_20 = \<lparr>mant = 3602879701896397, expo = 54\<rparr>"
definition lit_0_6 :: float64 where "lit_0_6 = \<lparr>mant = 5404319552844595, expo = 53\<rparr>"
definition lit_0_4 :: float64 where "lit_0_4 = \<lparr>mant = 3602879701896397, expo = 53\<rparr>"
definition lit_0_35 :: float64 where "lit_0_35 = \<lparr>mant = 3152519739159347, expo = 53\<rparr>"

subsection \<open>\<open>calculate_node_distribution\<close>\<close>

text \<open>
  The five dictionaries the method stores (\<open>node_counts\<close>, \<open>parts_distribution\<close>,
  \<open>supplier_distribution\<close>, \<open>warehouse_distribution\<close>, \<open>facility_distribution\<close>)
  are the fields of one record, prefixed \<open>nc\<close>, \<open>pd\<close>, \<open>sd\<close>, \<open>wd\<close>, \<open>fd\<close>.
\<close>

record distribution =
  nc_parts :: int
  nc_suppliers :: int
  nc_warehouses :: int
  nc_facilities :: int
  pd_raw :: int
  pd_subassembly :: int
  sd_small :: int
  sd_medium :: int
  sd_large :: int
  wd_supplier :: int
  wd_subassembly :: int
  wd_lam :: int
  fd_external :: int
  fd_lam :: int

definition calculate_node_distribution :: "int \<Rightarrow> py_error + distribution" where
  "calculate_node_distribution total_variable_nodes =
     then_do (int_times_float total_variable_nodes lit_0_50) (\<lambda>parts.
     then_do (int_times_float total_variable_nodes lit_0_15) (\<lambda>suppliers.
     then_do (int_times_float total_variable_nodes lit_0_20) (\<lambda>warehouses.
     then_do (int_times_float total_variable_nodes lit_0_15) (\<lambda>facilities.
     then_do (int_times_float parts lit_0_6) (\<lambda>raw.
     then_do (int_times_float parts lit_0_4) (\<lambda>subassembly.
     then_do (int_times_float suppliers lit_0_4) (\<lambda>small.
     then_do (int_times_float suppliers lit_0_35) (\<lambda>medium.
     then_do (int_times_float suppliers lit_0_25) (\<lambda>large.
     then_do (int_times_float warehouses lit_0_4) (\<lambda>w_supplier.
     then_do (int_times_float warehouses lit_0_35) (\<lambda>w_subassembly.
     then_do (int_times_float warehouses lit_0_25) (\<lambda>w_lam.
     then_do (int_times_float facilities lit_0_6) (\<lambda>external.
     then_do (int_times_float facilities lit_0_4) (\<lambda>f_lam.
       Inr \<lparr>nc_parts = parts, nc_suppliers = suppliers, nc_warehouses = warehouses,
            nc_facilities = facilities, pd_raw = raw, pd_subassembly = subassembly,
            sd_small = small, sd_medium = medium, sd_large = large,
            wd_supplier = w_supplier, wd_subassembly = w_subassembly, wd_lam = w_lam,
            fd_external = external, fd_lam = f_lam\<rparr>))))))))))))))"





section \<open>Float-valued computations\<close>

text \<open>
  The arithmetic of binary64 is not modelled. A float is the real number it denotes, and
  the two float-valued computations of the modelled methods are parameters of the model:
  \<open>random.uniform(a, b)\<close>, a function of the range and of the raw draw it consumes, and
  \<open>_generate_temporal_value\<close>, a function of the base value, the feature tag, the period
  index and the raw draw it consumes, which may raise (a period beyond the range of
  binary64 is an \<open>OverflowError\<close>). Every property below holds for all such functions.
\<close>

record arith =
  uniform_value :: "real \<times> real \<Rightarrow> int \<Rightarrow> real"
  temporal_value :: "real \<Rightarrow> string \<Rightarrow> int \<Rightarrow> int \<Rightarrow> py_error + real"

section \<open>The generator's state\<close>

subsection \<open>Attribute values and dictionaries\<close>

text \<open>
  The values the generator stores in its dictionaries: numbers (Python's \<open>int\<close> and
  \<open>float\<close>, both embedded in the reals), strings, dates (days on the calendar), lists
  of strings and the per-facility distance dictionary of a warehouse. A dictionary is an
  association list in insertion order; \<open>dict_set\<close> is the assignment \<open>d[k] = v\<close>.
\<close>

datatype val = Num real | Str string | Date int | StrList "string list" | Dist "(string \<times> int) list"

type_synonym attrs = "(string \<times> val) list"

fun dict_set :: "('k \<times> 'v) list \<Rightarrow> 'k \<Rightarrow> 'v \<Rightarrow> ('k \<times> 'v) list" where
  "dict_set [] k v = [(k, v)]"
| "dict_set ((k', v') # d) k v =
     (if k' = k then (k, v) # d else (k', v') # dict_set d k v)"

text \<open>A number read from a dictionary value; arithmetic on anything else raises.\<close>

definition num_of :: "val \<Rightarrow> py_error + real" where
  "num_of v = (case v of Num x \<Rightarrow> Inr x | _ \<Rightarrow> Inl TypeError)"

subsection \<open>The directed graph\<close>

text \<open>
  The \<open>networkx.DiGraph\<close>: the node dictionary in insertion order, and the edges with
  their attribute dictionaries in the order in which \<open>G.edges(data=True)\<close> yields
  them (by source node in node order, then by insertion). \<open>G.copy()\<close> copies the
  attribute dictionaries, so a copy is the same value.
\<close>

record graph =
  nodes :: "(string \<times> attrs) list"
  edges :: "((string \<times> string) \<times> attrs) list"

definition set_node_attr :: "graph \<Rightarrow> string \<Rightarrow> string \<Rightarrow> val \<Rightarrow> py_error + graph" where
  \<comment> \<open>\<open>graph.nodes[n][key] = v\<close>; a node that is not in the graph is a \<open>KeyError\<close>\<close>
  "set_node_attr g n key v =
     (case map_of (nodes g) n of
        None \<Rightarrow> Inl KeyError
      | Some a \<Rightarrow> Inr (g\<lparr>nodes := dict_set (nodes g) n (dict_set a key v)\<rparr>))"

definition node_attr :: "graph \<Rightarrow> string \<Rightarrow> string \<Rightarrow> val option" where
  "node_attr g n key = (case map_of (nodes g) n of None \<Rightarrow> None | Some a \<Rightarrow> map_of a key)"

definition edge_attr :: "graph \<Rightarrow> string \<Rightarrow> string \<Rightarrow> string \<Rightarrow> val option" where
  "edge_attr g u v key =
     (case map_of (edges g) (u, v) of None \<Rightarrow> None | Some a \<Rightarrow> map_of a key)"

fun index_of :: "'a list \<Rightarrow> 'a \<Rightarrow> nat" where
  "index_of [] x = 0"
| "index_of (y # ys) x = (if y = x then 0 else Suc (index_of ys x))"

fun insert_edge ::
  "(string \<Rightarrow> nat) \<Rightarrow> ((string \<times> string) \<times> attrs) list \<Rightarrow> (string \<times> string) \<times> attrs
     \<Rightarrow> ((string \<times> string) \<times> attrs) list" where
  "insert_edge pos [] e = [e]"
| "insert_edge pos (x # xs) e =
     (if pos (fst (fst e)) < pos (fst (fst x)) then e # x # xs else x # insert_edge pos xs e)"

definition add_node_if_missing :: "graph \<Rightarrow> string \<Rightarrow> graph" where
  "add_node_if_missing g n =
     (case map_of (nodes g) n of None \<Rightarrow> g\<lparr>nodes := nodes g @ [(n, [])]\<rparr> | Some _ \<Rightarrow> g)"

definition add_edge :: "graph \<Rightarrow> string \<Rightarrow> string \<Rightarrow> attrs \<Rightarrow> graph" where
  \<comment> \<open>\<open>G.add_edge(u, v, **attr)\<close>: missing end points are added; an existing edge keeps
      its place and its dictionary is updated\<close>
  "add_edge g u v a =
     (let g1 = add_node_if_missing (add_node_if_missing g u) v in
      case map_of (edges g1) (u, v) of
        Some old \<Rightarrow>
          g1\<lparr>edges := dict_set (edges g1) (u, v) (fold (\<lambda>(k, x) d. dict_set d k x) a old)\<rparr>
      | None \<Rightarrow>
          g1\<lparr>edges := insert_edge (index_of (map fst (nodes g1))) (edges g1) ((u, v), a)\<rparr>)"

subsection \<open>The operations log\<close>

datatype payload =
    NodePayload string string attrs
  | EdgePayload string string string attrs

record operation =
  action :: string
  op_type :: string
  payload :: payload
  op_timestamp :: int
  op_version :: string

subsection \<open>Entities\<close>

text \<open>
  The entity dictionaries, with the keys that the modelled methods read. The
  identifier is the key \<open>id\<close>. A warehouse's \<open>current_capacity\<close> is the key of the
  dictionary in \<open>self.warehouses\<close>, not the node attribute of the same name in the graph.
\<close>

record business_group =
  bg_id :: string
  bg_revenue :: real

record product_family =
  pf_id :: string
  pf_revenue :: real

record product_offering =
  po_id :: string
  po_cost :: real
  po_demand :: int

record supplier =
  s_id :: string
  s_reliability :: real

record warehouse =
  w_id :: string
  w_type :: string
  w_location :: string
  w_max_capacity :: int
  w_current_capacity :: int
  w_max_parts :: int

record facility =
  f_id :: string
  f_location :: string

record part =
  p_id :: string
  p_cost :: real
  p_valid_from :: int
  p_valid_till :: int

subsection \<open>The configuration module\<close>

text \<open>
  The constants of \<open>config\<close> that the modelled methods read. The module of this
  generator is not among the sources, so the constants are parameters. \<open>BASE_DATE\<close> is a
  day on the calendar; a period lasts 30 days.
\<close>

record config =
  BASE_DATE :: int
  INVENTORY_RANGE :: "int \<times> int"
  COST_RANGE :: "real \<times> real"
  QUANTITY_RANGE :: "int \<times> int"
  DISTANCE_RANGE :: "int \<times> int"
  TRANSPORTATION_COST_RANGE :: "real \<times> real"
  TRANSPORTATION_TIME_RANGE :: "real \<times> real"

subsection \<open>The generator object\<close>

text \<open>
  The fields of \<open>SupplyChainGenerator\<close>. The dictionaries \<open>self.warehouses\<close>,
  \<open>self.facilities\<close> and \<open>self.parts\<close> have fixed keys, one field each, in the order
  of the keys. \<open>rng\<close> is the random source: the raw draws still to come.
\<close>

record generator =
  G :: graph
  temporal_graphs :: "(int \<times> graph) list"
  temporal_data :: "(int \<times> attrs) list"
  base_periods :: int
  current_period :: int
  operations_log :: "operation list"
  version :: string
  timestamp :: int
  suppliers :: "supplier list"
  warehouses_supplier :: "warehouse list"
  warehouses_subassembly :: "warehouse list"
  warehouses_lam :: "warehouse list"
  facilities_external :: "facility list"
  facilities_lam :: "facility list"
  parts_raw :: "part list"
  parts_subassembly :: "part list"
  product_offerings :: "product_offering list"
  product_families :: "product_family list"
  business_group :: "business_group option"
  rng :: "int list"

definition all_warehouses :: "generator \<Rightarrow> warehouse list" where
  \<comment> \<open>\<open>sum(self.warehouses.values(), [])\<close>\<close>
  "all_warehouses s = warehouses_supplier s @ warehouses_subassembly s @ warehouses_lam s"

definition all_facilities :: "generator \<Rightarrow> facility list" where
  "all_facilities s = facilities_external s @ facilities_lam s"

definition all_parts :: "generator \<Rightarrow> part list" where
  "all_parts s = parts_raw s @ parts_subassembly s"

definition log_node_operation ::
  "generator \<Rightarrow> string \<Rightarrow> string \<Rightarrow> string \<Rightarrow> attrs \<Rightarrow> generator" where
  "log_node_operation s act n ntype props =
     s\<lparr>operations_log := operations_log s @
        [\<lparr>action = act, op_type = ''schema'', payload = NodePayload n ntype props,
          op_timestamp = timestamp s, op_version = version s\<rparr>]\<rparr>"

definition log_edge_operation ::
  "generator \<Rightarrow> string \<Rightarrow> string \<Rightarrow> string \<Rightarrow> attrs \<Rightarrow> string \<Rightarrow> generator" where
  "log_edge_operation s act u v props etype =
     s\<lparr>operations_log := operations_log s @
        [\<lparr>action = act, op_type = ''schema'', payload = EdgePayload u v etype props,
          op_timestamp = timestamp s, op_version = version s\<rparr>]\<rparr>"

subsection \<open>Drawing from the random source\<close>

text \<open>
  A draw takes the next raw value; a source that has run out yields 0. \<open>randint\<close> and
  \<open>sample\<close> reduce a raw value modulo the number of choices; \<open>sample\<close> selects without
  replacement from a pool, and raises \<open>ValueError\<close> when the sample is larger than the
  population or negative, as \<open>randint\<close> does on an empty range.
\<close>

definition draw :: "int list \<Rightarrow> int \<times> int list" where
  "draw r = (case r of [] \<Rightarrow> (0, []) | k # ks \<Rightarrow> (k, ks))"

definition random_uniform :: "arith \<Rightarrow> real \<times> real \<Rightarrow> generator \<Rightarrow> real \<times> generator" where
  "random_uniform ar ab s = (let (k, r) = draw (rng s) in (uniform_value ar ab k, s\<lparr>rng := r\<rparr>))"

definition random_randint :: "int \<times> int \<Rightarrow> generator \<Rightarrow> py_error + (int \<times> generator)" where
  "random_randint ab s =
     (if snd ab < fst ab then Inl ValueError
      else let (k, r) = draw (rng s)
           in Inr (fst ab + k mod (snd ab - fst ab + 1), s\<lparr>rng := r\<rparr>))"

fun sample_pool :: "'a list \<Rightarrow> nat \<Rightarrow> int list \<Rightarrow> 'a list \<times> int list" where
  "sample_pool pool 0 r = ([], r)"
| "sample_pool pool (Suc n) r =
     (if pool = [] then ([], r)
      else let (k, r1) = draw r;
               j = nat (k mod int (length pool));
               (xs, r2) = sample_pool (butlast (pool[j := last pool])) n r1
           in (pool ! j # xs, r2))"

definition random_sample :: "'a list \<Rightarrow> int \<Rightarrow> generator \<Rightarrow> py_error + ('a list \<times> generator)" where
  "random_sample population k s =
     (if k < 0 \<or> int (length population) < k then Inl ValueError
      else let (xs, r) = sample_pool population (nat k) (rng s) in Inr (xs, s\<lparr>rng := r\<rparr>))"

definition self_generate_temporal_value ::
  "arith \<Rightarrow> generator \<Rightarrow> real \<Rightarrow> string \<Rightarrow> int \<Rightarrow> py_error + (real \<times> generator)" where
  \<comment> \<open>\<open>self._generate_temporal_value\<close>: one draw of the random source\<close>
  "self_generate_temporal_value ar s base_value feature_type time_period =
     (let (k, r) = draw (rng s)
      in then_do (temporal_value ar base_value feature_type time_period k)
           (\<lambda>x. Inr (x, s\<lparr>rng := r\<rparr>)))"

fun for_each :: "('a \<Rightarrow> 's \<Rightarrow> py_error + 's) \<Rightarrow> 'a list \<Rightarrow> 's \<Rightarrow> py_error + 's" where
  \<comment> \<open>a \<open>for\<close> loop whose body may raise\<close>
  "for_each body [] s = Inr s"
| "for_each body (x # xs) s = then_do (body x s) (for_each body xs)"

section \<open>The temporal evolution engine\<close>

text \<open>
  A period is built in a working snapshot (\<open>period_graph\<close>) and a dictionary of the
  period's values (\<open>period_data\<close>); the generator object carries the log, the clock of
  the log and the random source. A method that raises returns the error; the statements
  it had run are then of no account.
\<close>

record ctx =
  period_graph :: graph
  period_data :: attrs
  self :: generator

definition period_date :: "config \<Rightarrow> int \<Rightarrow> int" where
  \<comment> \<open>\<open>BASE_DATE + timedelta(days=30 * time_period)\<close>\<close>
  "period_date cfg time_period = BASE_DATE cfg + 30 * time_period"

subsection \<open>Full regeneration: \<open>generate_temporal_data\<close>\<close>

definition regen_business_group :: "arith \<Rightarrow> config \<Rightarrow> int \<Rightarrow> ctx \<Rightarrow> py_error + ctx" where
  "regen_business_group ar cfg t c =
     (case business_group (self c) of
        None \<Rightarrow> Inl TypeError
      | Some bg \<Rightarrow>
          then_do (self_generate_temporal_value ar (self c) (bg_revenue bg) ''revenue'' t)
            (\<lambda>(x, s1).
          then_do (set_node_attr (period_graph c) (bg_id bg) ''revenue'' (Num x)) (\<lambda>g.
            Inr \<lparr>period_graph = g,
                 period_data = dict_set (period_data c) ''business_group_revenue'' (Num x),
                 self = log_node_operation s1 ''update'' (bg_id bg) ''BUSINESS_GROUP''
                           [(''revenue'', Num x)]\<rparr>)))"

definition regen_family :: "arith \<Rightarrow> config \<Rightarrow> int \<Rightarrow> product_family \<Rightarrow> ctx \<Rightarrow> py_error + ctx" where
  "regen_family ar cfg t family c =
     then_do (self_generate_temporal_value ar (self c) (pf_revenue family) ''revenue'' t) (\<lambda>(x, s1).
     then_do (set_node_attr (period_graph c) (pf_id family) ''revenue'' (Num x)) (\<lambda>g.
       Inr \<lparr>period_graph = g,
            period_data = dict_set (period_data c) (''family_'' @ pf_id family @ ''_revenue'') (Num x),
            self = log_node_operation s1 ''update'' (pf_id family) ''PRODUCT_FAMILY''
                      [(''revenue'', Num x)]\<rparr>))"

definition regen_offering :: "arith \<Rightarrow> config \<Rightarrow> int \<Rightarrow> product_offering \<Rightarrow> ctx \<Rightarrow> py_error + ctx" where
  "regen_offering ar cfg t offering c =
     then_do (self_generate_temporal_value ar (self c) (po_cost offering) ''cost'' t)
       (\<lambda>(new_cost, s1).
     then_do (set_node_attr (period_graph c) (po_id offering) ''cost'' (Num new_cost)) (\<lambda>g1.
     then_do (self_generate_temporal_value ar s1 (real_of_int (po_demand offering)) ''demand'' t)
       (\<lambda>(new_demand, s2).
     then_do (set_node_attr g1 (po_id offering) ''demand'' (Num new_demand)) (\<lambda>g2.
       Inr \<lparr>period_graph = g2,
            period_data =
              dict_set
                (dict_set (period_data c) (''offering_'' @ po_id offering @ ''_cost'')
                   (Num new_cost))
                (''offering_'' @ po_id offering @ ''_demand'') (Num new_demand),
            self = log_node_operation s2 ''update'' (po_id offering) ''PRODUCT_OFFERING''
                     [(''demand'', Num new_demand), (''cost'', Num new_cost)]\<rparr>))))"

definition regen_warehouse :: "arith \<Rightarrow> config \<Rightarrow> int \<Rightarrow> warehouse \<Rightarrow> ctx \<Rightarrow> py_error + ctx" where
  "regen_warehouse ar cfg t warehouse c =
     then_do (self_generate_temporal_value ar (self c) (real_of_int (w_current_capacity warehouse)) ''capacity'' t) (\<lambda>(x, s1).
     then_do (set_node_attr (period_graph c) (w_id warehouse) ''current_capacity'' (Num x)) (\<lambda>g.
       Inr \<lparr>period_graph = g,
            period_data = dict_set (period_data c) (''warehouse_'' @ w_id warehouse @ ''_capacity'') (Num x),
            self = log_node_operation s1 ''update'' (w_id warehouse) ''WAREHOUSE''
                      [(''capacity'', Num x)]\<rparr>))"

definition regen_supplier :: "arith \<Rightarrow> config \<Rightarrow> int \<Rightarrow> supplier \<Rightarrow> ctx \<Rightarrow> py_error + ctx" where
  "regen_supplier ar cfg t supplier c =
     then_do (self_generate_temporal_value ar (self c) (s_reliability supplier) ''reliability'' t) (\<lambda>(x, s1).
     then_do (set_node_attr (period_graph c) (s_id supplier) ''reliability'' (Num x)) (\<lambda>g.
       Inr \<lparr>period_graph = g,
            period_data = dict_set (period_data c) (''supplier_'' @ s_id supplier @ ''_reliability'') (Num x),
            self = log_node_operation s1 ''update'' (s_id supplier) ''SUPPLIERS''
                      [(''reliability'', Num x)]\<rparr>))"

definition part_valid :: "part \<Rightarrow> int \<Rightarrow> bool" where
  \<comment> \<open>\<open>part['valid_from'] <= current_date <= part['valid_till']\<close>\<close>
  "part_valid part current_date =
     (p_valid_from part \<le> current_date \<and> current_date \<le> p_valid_till part)"

definition regen_part :: "arith \<Rightarrow> config \<Rightarrow> int \<Rightarrow> part \<Rightarrow> ctx \<Rightarrow> py_error + ctx" where
  "regen_part ar cfg t part c =
     (if part_valid part (period_date cfg t)
      then then_do (self_generate_temporal_value ar (self c) (p_cost part) ''cost'' t)
             (\<lambda>(x, s1).
           then_do (set_node_attr (period_graph c) (p_id part) ''cost'' (Num x)) (\<lambda>g.
             Inr \<lparr>period_graph = g,
                  period_data = dict_set (period_data c) (''part_'' @ p_id part @ ''_cost'') (Num x),
                  self = log_node_operation s1 ''update'' (p_id part) ''PARTS''
                         [(''cost'', Num x)]\<rparr>))
      else Inr c)"

definition regen_edge ::
  "arith \<Rightarrow> config \<Rightarrow> int \<Rightarrow> string \<Rightarrow> string \<Rightarrow> attrs \<times> attrs \<times> generator
     \<Rightarrow> py_error + (attrs \<times> attrs \<times> generator)" where
  \<comment> \<open>the body of the loop over \<open>period_graph.edges(data=True)\<close>, on the edge's
      dictionary, the period's dictionary and the generator\<close>
  "regen_edge ar cfg t u v ads =
     then_do
       (case ads of (a, d, s) \<Rightarrow>
          (case map_of a ''transportation_cost'' of
             None \<Rightarrow> Inr (a, d, s)
           | Some b \<Rightarrow>
               then_do (num_of b) (\<lambda>base.
               then_do (self_generate_temporal_value ar s base ''transportation_cost'' t)
                 (\<lambda>(x, s1).
                 Inr (dict_set a ''transportation_cost'' (Num x),
                      dict_set d (''edge_'' @ u @ ''_'' @ v @ ''_transport_cost'') (Num x),
                      log_edge_operation s1 ''update'' u v [(''transportation_cost'', Num x)]
                      ''SUPPLIERS_WAREHOUSE'')))))
       (\<lambda>(a, d, s).
          case map_of a ''inventory_level'' of
            None \<Rightarrow> Inr (a, d, s)
          | Some b \<Rightarrow>
              then_do (num_of b) (\<lambda>base.
              then_do (self_generate_temporal_value ar s base ''inventory'' t)
                (\<lambda>(x, s1).
                Inr (dict_set a ''inventory_level'' (Num x),
                     dict_set d (''edge_'' @ u @ ''_'' @ v @ ''_inventory'') (Num x),
                     log_edge_operation s1 ''update'' u v [(''inventory_level'', Num x)]
                      ''WAREHOUSE_PARTS''))))"

fun regen_edges ::
  "arith \<Rightarrow> config \<Rightarrow> int \<Rightarrow> ((string \<times> string) \<times> attrs) list \<Rightarrow> attrs \<times> generator
     \<Rightarrow> py_error + (((string \<times> string) \<times> attrs) list \<times> attrs \<times> generator)" where
  "regen_edges ar cfg t [] ds = Inr ([], ds)"
| "regen_edges ar cfg t (e # es) ds =
     then_do (regen_edge ar cfg t (fst (fst e)) (snd (fst e)) (snd e, ds)) (\<lambda>(a, ds1).
     then_do (regen_edges ar cfg t es ds1) (\<lambda>(es1, ds2).
       Inr ((fst e, a) # es1, ds2)))"

definition regen_all_edges :: "arith \<Rightarrow> config \<Rightarrow> int \<Rightarrow> ctx \<Rightarrow> py_error + ctx" where
  "regen_all_edges ar cfg t c =
     then_do (regen_edges ar cfg t (edges (period_graph c)) (period_data c, self c))
       (\<lambda>(es, d, s). Inr \<lparr>period_graph = (period_graph c)\<lparr>edges := es\<rparr>,
                          period_data = d, self = s\<rparr>)"

definition regen_period :: "arith \<Rightarrow> config \<Rightarrow> graph \<Rightarrow> int \<Rightarrow> generator \<Rightarrow> py_error + generator" where
  \<comment> \<open>the body of \<open>for time_period in range(1, self.base_periods)\<close>\<close>
  "regen_period ar cfg base_graph t s =
     (let s1 = s\<lparr>timestamp := timestamp s + 1\<rparr>;
          c0 = \<lparr>period_graph = base_graph,
                period_data = [(''date'', Date (period_date cfg t))],
                self = s1\<rparr>
      in then_do (regen_business_group ar cfg t c0) (\<lambda>c1.
         then_do (for_each (regen_family ar cfg t) (product_families (self c1)) c1) (\<lambda>c2.
         then_do (for_each (regen_offering ar cfg t) (product_offerings (self c2)) c2) (\<lambda>c3.
         then_do (for_each (regen_warehouse ar cfg t) (all_warehouses (self c3)) c3) (\<lambda>c4.
         then_do (for_each (regen_supplier ar cfg t) (suppliers (self c4)) c4) (\<lambda>c5.
         then_do (for_each (regen_part ar cfg t) (all_parts (self c5)) c5) (\<lambda>c6.
         then_do (regen_all_edges ar cfg t c6) (\<lambda>c7.
           Inr ((self c7)
                 \<lparr>temporal_graphs := dict_set (temporal_graphs (self c7)) t (period_graph c7),
                  temporal_data := dict_set (temporal_data (self c7)) t (period_data c7)\<rparr>)))))))))"

definition generate_temporal_data :: "arith \<Rightarrow> config \<Rightarrow> generator \<Rightarrow> py_error + generator" where
  "generate_temporal_data ar cfg s =
     (let base_graph = G s;
          s0 = s\<lparr>temporal_graphs := dict_set (temporal_graphs s) 0 base_graph\<rparr>
      in for_each (regen_period ar cfg base_graph) [1..base_periods s - 1] s0)"


subsection \<open>Incremental extension: \<open>simulate_next_period\<close>\<close>

definition update_business_group :: "arith \<Rightarrow> config \<Rightarrow> int \<Rightarrow> ctx \<Rightarrow> py_error + ctx" where
  "update_business_group ar cfg t c =
     (case business_group (self c) of
        None \<Rightarrow> Inl TypeError
      | Some bg \<Rightarrow>
          then_do (self_generate_temporal_value ar (self c) (bg_revenue bg) ''revenue'' t)
            (\<lambda>(x, s1).
          then_do (set_node_attr (period_graph c) (bg_id bg) ''revenue'' (Num x)) (\<lambda>g.
            Inr \<lparr>period_graph = g,
                 period_data = dict_set (period_data c) ''business_group_revenue'' (Num x),
                 self = s1\<rparr>)))"

definition update_family :: "arith \<Rightarrow> config \<Rightarrow> int \<Rightarrow> product_family \<Rightarrow> ctx \<Rightarrow> py_error + ctx" where
  "update_family ar cfg t family c =
     then_do (self_generate_temporal_value ar (self c) (pf_revenue family) ''revenue'' t) (\<lambda>(x, s1).
     then_do (set_node_attr (period_graph c) (pf_id family) ''revenue'' (Num x)) (\<lambda>g.
       Inr \<lparr>period_graph = g,
            period_data = dict_set (period_data c) (''family_'' @ pf_id family @ ''_revenue'') (Num x),
            self = s1\<rparr>))"

definition update_product :: "arith \<Rightarrow> config \<Rightarrow> int \<Rightarrow> product_offering \<Rightarrow> ctx \<Rightarrow> py_error + ctx" where
  "update_product ar cfg t offering c =
     then_do (self_generate_temporal_value ar (self c) (po_cost offering) ''cost'' t)
       (\<lambda>(new_cost, s1).
     then_do (self_generate_temporal_value ar s1 (real_of_int (po_demand offering)) ''demand'' t)
       (\<lambda>(new_demand, s2).
     then_do (set_node_attr (period_graph c) (po_id offering) ''cost'' (Num new_cost)) (\<lambda>g1.
     then_do (set_node_attr g1 (po_id offering) ''demand'' (Num new_demand)) (\<lambda>g2.
       Inr \<lparr>period_graph = g2,
            period_data =
              dict_set
                (dict_set (period_data c) (''offering_'' @ po_id offering @ ''_cost'')
                   (Num new_cost))
                (''offering_'' @ po_id offering @ ''_demand'') (Num new_demand),
            self = s2\<rparr>))))"

definition update_warehouse :: "arith \<Rightarrow> config \<Rightarrow> int \<Rightarrow> warehouse \<Rightarrow> ctx \<Rightarrow> py_error + ctx" where
  "update_warehouse ar cfg t warehouse c =
     then_do (self_generate_temporal_value ar (self c) (real_of_int (w_current_capacity warehouse)) ''capacity'' t) (\<lambda>(x, s1).
     then_do (set_node_attr (period_graph c) (w_id warehouse) ''current_capacity'' (Num x)) (\<lambda>g.
       Inr \<lparr>period_graph = g,
            period_data = dict_set (period_data c) (''warehouse_'' @ w_id warehouse @ ''_capacity'') (Num x),
            self = s1\<rparr>))"

definition update_supplier :: "arith \<Rightarrow> config \<Rightarrow> int \<Rightarrow> supplier \<Rightarrow> ctx \<Rightarrow> py_error + ctx" where
  "update_supplier ar cfg t supplier c =
     then_do (self_generate_temporal_value ar (self c) (s_reliability supplier) ''reliability'' t) (\<lambda>(x, s1).
     then_do (set_node_attr (period_graph c) (s_id supplier) ''reliability'' (Num x)) (\<lambda>g.
       Inr \<lparr>period_graph = g,
            period_data = dict_set (period_data c) (''supplier_'' @ s_id supplier @ ''_reliability'') (Num x),
            self = s1\<rparr>))"

definition update_part :: "arith \<Rightarrow> config \<Rightarrow> int \<Rightarrow> part \<Rightarrow> ctx \<Rightarrow> py_error + ctx" where
  "update_part ar cfg t part c =
     (if part_valid part (period_date cfg t)
      then then_do (self_generate_temporal_value ar (self c) (p_cost part) ''cost'' t)
             (\<lambda>(x, s1).
           then_do (set_node_attr (period_graph c) (p_id part) ''cost'' (Num x)) (\<lambda>g.
             Inr \<lparr>period_graph = g,
                  period_data = dict_set (period_data c) (''part_'' @ p_id part @ ''_cost'') (Num x),
                  self = s1\<rparr>))
      else Inr c)"

definition update_edge ::
  "arith \<Rightarrow> config \<Rightarrow> int \<Rightarrow> string \<Rightarrow> string \<Rightarrow> attrs \<times> attrs \<times> generator
     \<Rightarrow> py_error + (attrs \<times> attrs \<times> generator)" where
  "update_edge ar cfg t u v ads =
     then_do
       (case ads of (a, d, s) \<Rightarrow>
          (case map_of a ''transportation_cost'' of
             None \<Rightarrow> Inr (a, d, s)
           | Some b \<Rightarrow>
               then_do (num_of b) (\<lambda>base.
               then_do (self_generate_temporal_value ar s base ''transportation_cost'' t)
                 (\<lambda>(x, s1).
                 Inr (dict_set a ''transportation_cost'' (Num x),
                      dict_set d (''edge_'' @ u @ ''_'' @ v @ ''_transport_cost'') (Num x),
                      s1)))))
       (\<lambda>(a, d, s).
          case map_of a ''inventory_level'' of
            None \<Rightarrow> Inr (a, d, s)
          | Some b \<Rightarrow>
              then_do (num_of b) (\<lambda>base.
              then_do (self_generate_temporal_value ar s base ''inventory'' t)
                (\<lambda>(x, s1).
                Inr (dict_set a ''inventory_level'' (Num x),
                     dict_set d (''edge_'' @ u @ ''_'' @ v @ ''_inventory'') (Num x),
                     s1))))"

fun update_edges ::
  "arith \<Rightarrow> config \<Rightarrow> int \<Rightarrow> ((string \<times> string) \<times> attrs) list \<Rightarrow> attrs \<times> generator
     \<Rightarrow> py_error + (((string \<times> string) \<times> attrs) list \<times> attrs \<times> generator)" where
  "update_edges ar cfg t [] ds = Inr ([], ds)"
| "update_edges ar cfg t (e # es) ds =
     then_do (update_edge ar cfg t (fst (fst e)) (snd (fst e)) (snd e, ds)) (\<lambda>(a, ds1).
     then_do (update_edges ar cfg t es ds1) (\<lambda>(es1, ds2).
       Inr ((fst e, a) # es1, ds2)))"

definition update_edge_attributes :: "arith \<Rightarrow> config \<Rightarrow> int \<Rightarrow> ctx \<Rightarrow> py_error + ctx" where
  "update_edge_attributes ar cfg t c =
     then_do (update_edges ar cfg t (edges (period_graph c)) (period_data c, self c))
       (\<lambda>(es, d, s). Inr \<lparr>period_graph = (period_graph c)\<lparr>edges := es\<rparr>,
                          period_data = d, self = s\<rparr>)"

definition update_period_attributes :: "arith \<Rightarrow> config \<Rightarrow> int \<Rightarrow> ctx \<Rightarrow> py_error + ctx" where
  "update_period_attributes ar cfg t c0 =
     then_do (update_business_group ar cfg t c0) (\<lambda>c1.
     then_do (for_each (update_family ar cfg t) (product_families (self c1)) c1) (\<lambda>c2.
     then_do (for_each (update_product ar cfg t) (product_offerings (self c2)) c2) (\<lambda>c3.
     then_do (for_each (update_warehouse ar cfg t) (all_warehouses (self c3)) c3) (\<lambda>c4.
     then_do (for_each (update_supplier ar cfg t) (suppliers (self c4)) c4) (\<lambda>c5.
     then_do (for_each (update_part ar cfg t) (all_parts (self c5)) c5) (\<lambda>c6.
       update_edge_attributes ar cfg t c6))))))"

definition simulate_next_period :: "arith \<Rightarrow> config \<Rightarrow> generator \<Rightarrow> py_error + (int \<times> generator)" where
  "simulate_next_period ar cfg s =
     (case temporal_graphs s of
        [] \<Rightarrow> Inl ValueError
      | kg # kgs \<Rightarrow>
          let last_period = fold max (map fst kgs) (fst kg);
              next_period = last_period + 1
          in case map_of (temporal_graphs s) last_period of
               None \<Rightarrow> Inl KeyError
             | Some base_graph \<Rightarrow>
                 then_do
                   (update_period_attributes ar cfg next_period
                      \<lparr>period_graph = base_graph,
                       period_data = [(''date'', Date (period_date cfg next_period))],
                       self = s\<rparr>)
                   (\<lambda>c. Inr (next_period,
                              (self c)
                                \<lparr>temporal_graphs :=
                                   dict_set (temporal_graphs (self c)) next_period (period_graph c),
                                 temporal_data :=
                                   dict_set (temporal_data (self c)) next_period (period_data c),
                                 current_period := next_period\<rparr>)))"

fun simulate_multiple_periods ::
  "arith \<Rightarrow> config \<Rightarrow> nat \<Rightarrow> generator \<Rightarrow> py_error + (int list \<times> generator)" where
  "simulate_multiple_periods ar cfg 0 s = Inr ([], s)"
| "simulate_multiple_periods ar cfg (Suc n) s =
     then_do (simulate_next_period ar cfg s) (\<lambda>(new_period, s1).
     then_do (simulate_multiple_periods ar cfg n s1) (\<lambda>(new_periods, s2).
       Inr (new_period # new_periods, s2)))"

section \<open>The topology builder\<close>

subsection \<open>Warehouses to parts: \<open>_connect_warehouses_to_parts\<close>\<close>

definition store_part ::
  "arith \<Rightarrow> config \<Rightarrow> warehouse \<Rightarrow> part \<Rightarrow> int \<times> generator \<Rightarrow> py_error + (int \<times> generator)" where
  \<comment> \<open>the body of \<open>for part in selected_parts\<close>; the state is \<open>current_inventory\<close> and
      the generator\<close>
  "store_part ar cfg warehouse part cs =
     (case cs of (current_inventory, s) \<Rightarrow>
        then_do (random_randint (INVENTORY_RANGE cfg) s) (\<lambda>(drawn, s1).
          let max_possible_inventory = min drawn (w_max_capacity warehouse - current_inventory)
          in if max_possible_inventory \<le> 0 then Inr (current_inventory, s1)
             else
               let inventory_level = max_possible_inventory;
                   current_inventory1 = current_inventory + inventory_level;
                   (storage_cost, s2) = random_uniform ar (COST_RANGE cfg) s1;
                   edge_data = [(''inventory_level'', Num (real_of_int inventory_level)),
                                (''storage_cost'', Num storage_cost)];
                   s3 = s2\<lparr>G := add_edge (G s2) (w_id warehouse) (p_id part) edge_data\<rparr>;
                   s4 = log_edge_operation s3 ''create'' (w_id warehouse) (p_id part) edge_data
                          ''WAREHOUSE_PARTS''
               in then_do
                    (set_node_attr (G s4) (w_id warehouse) ''current_capacity''
                       (Num (real_of_int current_inventory1)))
                    (\<lambda>g. Inr (current_inventory1,
                               log_node_operation (s4\<lparr>G := g\<rparr>) ''update'' (w_id warehouse)
                                 ''WAREHOUSE''
                                 [(''current_capacity'', Num (real_of_int current_inventory1))]))))"

definition connect_warehouse :: "arith \<Rightarrow> config \<Rightarrow> warehouse \<Rightarrow> generator \<Rightarrow> py_error + generator" where
  \<comment> \<open>the body of \<open>for warehouse in sum(self.warehouses.values(), [])\<close>\<close>
  "connect_warehouse ar cfg warehouse s =
     (let max_parts = w_max_parts warehouse;
          possible_parts =
            (if w_type warehouse = ''supplier'' then parts_raw s else parts_subassembly s)
      in then_do (random_sample possible_parts (min max_parts (int (length possible_parts))) s)
           (\<lambda>(selected_parts, s1).
              then_do (for_each (store_part ar cfg warehouse) selected_parts (0, s1))
                (\<lambda>(current_inventory, s2). Inr s2)))"

definition connect_warehouses_to_parts :: "arith \<Rightarrow> config \<Rightarrow> generator \<Rightarrow> py_error + generator" where
  "connect_warehouses_to_parts ar cfg s = for_each (connect_warehouse ar cfg) (all_warehouses s) s"

subsection \<open>Parts and facilities: \<open>_connect_parts_to_facilities\<close>\<close>

definition use_part :: "arith \<Rightarrow> config \<Rightarrow> facility \<Rightarrow> part \<Rightarrow> generator \<Rightarrow> py_error + generator" where
  \<comment> \<open>a part consumed by a facility: the edge part to facility\<close>
  "use_part ar cfg facility part s =
     then_do (random_randint (QUANTITY_RANGE cfg) s) (\<lambda>(quantity, s1).
     then_do (random_randint (DISTANCE_RANGE cfg) s1) (\<lambda>(distance, s2).
       let (transport_cost, s3) = random_uniform ar (TRANSPORTATION_COST_RANGE cfg) s2;
           (lead_time, s4) = random_uniform ar (TRANSPORTATION_TIME_RANGE cfg) s3;
           edge_data = [(''quantity'', Num (real_of_int quantity)),
                        (''distance'', Num (real_of_int distance)),
                        (''transport_cost'', Num transport_cost),
                        (''lead_time'', Num lead_time)];
           s5 = s4\<lparr>G := add_edge (G s4) (p_id part) (f_id facility) edge_data\<rparr>
       in Inr (log_edge_operation s5 ''create'' (p_id part) (f_id facility) edge_data
                 ''PARTS_FACILITY'')))"

definition produce_part :: "arith \<Rightarrow> config \<Rightarrow> facility \<Rightarrow> part \<Rightarrow> generator \<Rightarrow> py_error + generator" where
  \<comment> \<open>a subassembly produced by an external facility: the edge facility to part\<close>
  "produce_part ar cfg facility part s =
     (let (production_cost, s1) = random_uniform ar (COST_RANGE cfg) s;
          (lead_time, s2) = random_uniform ar (TRANSPORTATION_TIME_RANGE cfg) s1
      in then_do (random_randint (QUANTITY_RANGE cfg) s2) (\<lambda>(quantity, s3).
           let edge_data = [(''production_cost'', Num production_cost),
                            (''lead_time'', Num lead_time),
                            (''quantity'', Num (real_of_int quantity))];
               s4 = s3\<lparr>G := add_edge (G s3) (f_id facility) (p_id part) edge_data\<rparr>
           in Inr (log_edge_operation s4 ''create'' (f_id facility) (p_id part) edge_data
                     ''FACILITY_PARTS'')))"

definition connect_external_facility ::
  "arith \<Rightarrow> config \<Rightarrow> facility \<Rightarrow> generator \<Rightarrow> py_error + generator" where
  "connect_external_facility ar cfg facility s =
     then_do (random_randint (2, max 3 (int (length (parts_raw s)) div 2)) s) (\<lambda>(k, s1).
     then_do (random_sample (parts_raw s1) k s1) (\<lambda>(raw_parts, s2).
     then_do (for_each (use_part ar cfg facility) raw_parts s2) (\<lambda>s3.
     then_do (random_randint (1, 3) s3) (\<lambda>(k2, s4).
     then_do (random_sample (parts_subassembly s4) k2 s4) (\<lambda>(subassembly_parts, s5).
       for_each (produce_part ar cfg facility) subassembly_parts s5)))))"

definition connect_lam_facility :: "arith \<Rightarrow> config \<Rightarrow> facility \<Rightarrow> generator \<Rightarrow> py_error + generator" where
  "connect_lam_facility ar cfg facility s =
     then_do (random_randint (2, max 3 (int (length (parts_subassembly s)) div 2)) s) (\<lambda>(k, s1).
     then_do (random_sample (parts_subassembly s1) k s1) (\<lambda>(subassembly_parts, s2).
       for_each (use_part ar cfg facility) subassembly_parts s2))"

definition connect_parts_to_facilities :: "arith \<Rightarrow> config \<Rightarrow> generator \<Rightarrow> py_error + generator" where
  "connect_parts_to_facilities ar cfg s =
     then_do (for_each (connect_external_facility ar cfg) (facilities_external s) s) (\<lambda>s1.
       for_each (connect_lam_facility ar cfg) (facilities_lam s1) s1)"

subsection \<open>Distances: \<open>_calculate_distances\<close>\<close>

definition set_distance ::
  "arith \<Rightarrow> config \<Rightarrow> warehouse \<Rightarrow> facility \<Rightarrow> generator \<Rightarrow> py_error + generator" where
  "set_distance ar cfg warehouse facility s =
     then_do
       (if w_location warehouse = f_location facility then random_randint (10, 50) s
        else random_randint (DISTANCE_RANGE cfg) s)
       (\<lambda>(distance, s1).
          case map_of (nodes (G s1)) (w_id warehouse) of
            None \<Rightarrow> Inl KeyError
          | Some a \<Rightarrow>
              (case map_of a ''distances'' of
                 None \<Rightarrow>
                   then_do (set_node_attr (G s1) (w_id warehouse) ''distances''
                              (Dist [(f_id facility, distance)]))
                     (\<lambda>g. Inr (s1\<lparr>G := g\<rparr>))
               | Some (Dist ds) \<Rightarrow>
                   then_do (set_node_attr (G s1) (w_id warehouse) ''distances''
                              (Dist (dict_set ds (f_id facility) distance)))
                     (\<lambda>g. Inr (s1\<lparr>G := g\<rparr>))
               | Some _ \<Rightarrow> Inl TypeError))"

definition calculate_distances :: "arith \<Rightarrow> config \<Rightarrow> generator \<Rightarrow> py_error + generator" where
  "calculate_distances ar cfg s =
     for_each (\<lambda>warehouse. for_each (set_distance ar cfg warehouse) (all_facilities s))
       (all_warehouses s) s"

section \<open>Concrete generators\<close>

text \<open>
  Small generator states on which the methods are evaluated. The configuration has the
  ranges of the repository's other \<open>config.py\<close>. The float-valued computations are
  instantiated with the values that a temporal table with a trend of 0.5 per period and
  no noise gives to a feature without season: the base value times \<open>1 + t / 2\<close>, which
  binary64 computes exactly for the small integers used here (for cost and demand the
  seasonal factor is 1 at period 3). \<open>uniform\<close> is \<open>a + (b - a) * (k / 2^53)\<close> for the
  draw \<open>k\<close>, which is \<open>a\<close> for the draw 0.
\<close>

definition example_arith :: arith where
  "example_arith =
     \<lparr>uniform_value = (\<lambda>ab k. fst ab + (snd ab - fst ab) * (real_of_int (k mod 2 ^ 53) / 2 ^ 53)),
      temporal_value = (\<lambda>base_value feature_type time_period k.
         Inr (base_value * (1 + real_of_int time_period / 2)))\<rparr>"

definition example_config :: config where
  "example_config =
     \<lparr>BASE_DATE = 0,
      INVENTORY_RANGE = (50, 1000),
      COST_RANGE = (100, 10000),
      QUANTITY_RANGE = (1, 20),
      DISTANCE_RANGE = (10, 1000),
      TRANSPORTATION_COST_RANGE = (10, 1000),
      TRANSPORTATION_TIME_RANGE = (1, 30)\<rparr>"

definition empty_generator :: generator where
  \<comment> \<open>the object after \<open>__init__\<close>, with three periods\<close>
  "empty_generator =
     \<lparr>G = \<lparr>nodes = [], edges = []\<rparr>, temporal_graphs = [], temporal_data = [],
      base_periods = 3, current_period = 0, operations_log = [], version = ''NSS_V1'',
      timestamp = 0, suppliers = [], warehouses_supplier = [], warehouses_subassembly = [],
      warehouses_lam = [], facilities_external = [], facilities_lam = [], parts_raw = [],
      parts_subassembly = [], product_offerings = [], product_families = [],
      business_group = None, rng = []\<rparr>"

definition example_part :: "string \<Rightarrow> part" where
  "example_part n = \<lparr>p_id = n, p_cost = 100, p_valid_from = 0, p_valid_till = 30\<rparr>"

definition small_generator :: generator where
  \<comment> \<open>a business group and a supplier's edge to a warehouse, before the periods are made\<close>
  "small_generator =
     empty_generator
       \<lparr>G := \<lparr>nodes = [(''BG_001'', [(''revenue'', Num 1000)]),
                       (''S_001'', [(''reliability'', Num (9 / 10))]),
                       (''W_001'', [(''current_capacity'', Num 0)])],
              edges = [((''S_001'', ''W_001''), [(''transportation_cost'', Num 100)])]\<rparr>,
        temporal_graphs :=
          [(0, \<lparr>nodes = [(''BG_001'', [(''revenue'', Num 1000)]),
                        (''S_001'', [(''reliability'', Num (9 / 10))]),
                        (''W_001'', [(''current_capacity'', Num 0)])],
                edges = [((''S_001'', ''W_001''), [(''transportation_cost'', Num 100)])]\<rparr>)],
        business_group := Some \<lparr>bg_id = ''BG_001'', bg_revenue = 1000\<rparr>\<rparr>"

definition example_warehouse :: warehouse where
  "example_warehouse =
     \<lparr>w_id = ''W_001'', w_type = ''supplier'', w_location = ''Texas'',
      w_max_capacity = 60, w_current_capacity = 0, w_max_parts = 5\<rparr>"

definition warehouse_generator :: generator where
  \<comment> \<open>a business group, one supplier warehouse of capacity 60 and one raw part, before
      the wiring\<close>
  "warehouse_generator =
     empty_generator
       \<lparr>G := \<lparr>nodes = [(''BG_001'', [(''revenue'', Num 1000)]),
                       (''W_001'', [(''max_capacity'', Num 60), (''current_capacity'', Num 0)]),
                       (''P_001'', [(''cost'', Num 100)])],
              edges = []\<rparr>,
        warehouses_supplier := [example_warehouse],
        parts_raw := [example_part ''P_001''],
        business_group := Some \<lparr>bg_id = ''BG_001'', bg_revenue = 1000\<rparr>,
        rng := [0, 50, 0]\<rparr>"

definition facility_generator :: generator where
  \<comment> \<open>the populations of a budget of 14 nodes: four raw parts, two subassemblies and one
      external facility\<close>
  "facility_generator =
     empty_generator
       \<lparr>facilities_external := [\<lparr>f_id = ''F_001'', f_location = ''Texas''\<rparr>],
        parts_raw := [example_part ''P_001'', example_part ''P_002'', example_part ''P_003'',
                      example_part ''P_004''],
        parts_subassembly := [example_part ''P_005'', example_part ''P_006''],
        rng := [0, 0, 0, 0, 0, 0, 0, 0, 0, 0, 0, 2]\<rparr>"

text \<open>Reading a result: the generator of a successful run, and attributes in it.\<close>

definition result_of :: "py_error + generator \<Rightarrow> generator" where
  "result_of r = (case r of Inr s \<Rightarrow> s | Inl e \<Rightarrow> empty_generator)"

definition snapshot_node_attr :: "generator \<Rightarrow> int \<Rightarrow> string \<Rightarrow> string \<Rightarrow> val option" where
  "snapshot_node_attr s t n key =
     (case map_of (temporal_graphs s) t of None \<Rightarrow> None | Some g \<Rightarrow> node_attr g n key)"

definition snapshot_edge_attr ::
  "generator \<Rightarrow> int \<Rightarrow> string \<Rightarrow> string \<Rightarrow> string \<Rightarrow> val option" where
  "snapshot_edge_attr s t u v key =
     (case map_of (temporal_graphs s) t of None \<Rightarrow> None | Some g \<Rightarrow> edge_attr g u v key)"

definition value_of :: "py_error + 'a \<times> generator \<Rightarrow> py_error + 'a" where
  \<comment> \<open>the value a drawing primitive returns, without the generator\<close>
  "value_of r = (case r of Inl e \<Rightarrow> Inl e | Inr (x, s) \<Rightarrow> Inr x)"

definition generator_of :: "py_error + 'a \<times> generator \<Rightarrow> generator" where
  "generator_of r = (case r of Inr (x, s) \<Rightarrow> s | Inl e \<Rightarrow> empty_generator)"

definition run_wiring_then_periods :: "py_error + generator" where
  \<comment> \<open>\<open>_connect_warehouses_to_parts\<close>, then \<open>generate_temporal_data\<close>\<close>
  "run_wiring_then_periods =
     then_do (connect_warehouses_to_parts example_arith example_config warehouse_generator)
       (generate_temporal_data example_arith example_config)"

definition succeeded :: "py_error + 'a \<Rightarrow> bool" where
  "succeeded r = (case r of Inr x \<Rightarrow> True | Inl e \<Rightarrow> False)"


definition distance_generator :: generator where
  \<comment> \<open>a warehouse and a facility, before \<open>_calculate_distances\<close>\<close>
  "distance_generator =
     warehouse_generator\<lparr>facilities_external := [\<lparr>f_id = ''F_001'', f_location = ''Texas''\<rparr>]\<rparr>"




section \<open>Relations between generator states\<close>


definition log_unchanged :: "generator \<Rightarrow> generator \<Rightarrow> bool" where
  "log_unchanged s s' =
     (operations_log s' = operations_log s \<and> timestamp s' = timestamp s)"




text \<open>
  \<open>warehouses_kept s s'\<close>: the warehouse dictionaries and the stored snapshots are the
  same. \<open>capacity_zero g ws\<close>: the node of every warehouse of \<open>ws\<close> has
  \<open>current_capacity\<close> 0 in \<open>g\<close>.
\<close>

definition warehouses_kept :: "generator \<Rightarrow> generator \<Rightarrow> bool" where
  "warehouses_kept s s' =
     (all_warehouses s' = all_warehouses s \<and> temporal_graphs s' = temporal_graphs s)"


section \<open>Properties of the distribution planner\<close>





















section \<open>Properties of the temporal evolution engine\<close>


lemma succeeded_generator: "succeeded r \<Longrightarrow> r = Inr (fst (projr r), generator_of r)"
  by (cases r) (auto simp: succeeded_def generator_of_def)

lemma then_do_Inr: "then_do r f = Inr y \<Longrightarrow> \<exists>x. r = Inr x \<and> f x = Inr y"
  by (cases r) (simp_all add: then_do_def)

lemma for_each_rel:
  assumes refl: "\<And>s. R s s"
    and trans: "\<And>s s' s''. R s s' \<Longrightarrow> R s' s'' \<Longrightarrow> R s s''"
    and step: "\<And>x s s'. x \<in> set xs \<Longrightarrow> body x s = Inr s' \<Longrightarrow> R s s'"
  shows "for_each body xs s = Inr s' \<Longrightarrow> R s s'"
  using step
proof (induction xs arbitrary: s)
  case Nil
  then show ?case using refl by simp
next
  case (Cons x xs)
  from Cons.prems(1) obtain s1 where a: "body x s = Inr s1" and b: "for_each body xs s1 = Inr s'"
    using then_do_Inr by fastforce
  have "R s s1" using Cons.prems(2) [of x s s1] a by simp
  moreover have "R s1 s'"
  proof (rule Cons.IH [OF b])
    fix y t t' assume "y \<in> set xs" "body y t = Inr t'"
    then show "R t t'" using Cons.prems(2) [of y t t'] by simp
  qed
  ultimately show ?case using trans by blast
qed

lemma sgtv_frame:
  "self_generate_temporal_value ar s b f t = Inr (x, s1) \<Longrightarrow> s1 = s\<lparr>rng := snd (draw (rng s))\<rparr>"
  by (auto simp: self_generate_temporal_value_def then_do_def Let_def
      split: prod.splits sum.splits)

lemma log_unchanged_refl: "log_unchanged s s"
  by (simp add: log_unchanged_def)

lemma log_unchanged_trans: "log_unchanged s s' \<Longrightarrow> log_unchanged s' s'' \<Longrightarrow> log_unchanged s s''"
  by (simp add: log_unchanged_def)







lemma sgtv_log_unchanged:
  "self_generate_temporal_value ar s b f t = Inr (x, s1) \<Longrightarrow> log_unchanged s s1"
  using sgtv_frame [of ar s b f t x s1] by (simp add: log_unchanged_def)























lemma for_each_log_unchanged:
  assumes "\<And>x c c'. body x c = Inr c' \<Longrightarrow> log_unchanged (self c) (self c')"
  shows "for_each body xs c = Inr c' \<Longrightarrow> log_unchanged (self c) (self c')"
  by (rule for_each_rel [where R = "\<lambda>c c'. log_unchanged (self c) (self c')"])
     (auto intro: log_unchanged_refl log_unchanged_trans assms)

lemma update_business_group_log:
  "update_business_group ar cfg t c = Inr c' \<Longrightarrow> log_unchanged (self c) (self c')"
  by (auto simp: update_business_group_def then_do_def log_unchanged_refl
      dest!: sgtv_log_unchanged intro: log_unchanged_trans
      split: option.splits sum.splits prod.splits if_splits)

lemma update_family_log:
  "update_family ar cfg t x c = Inr c' \<Longrightarrow> log_unchanged (self c) (self c')"
  by (auto simp: update_family_def then_do_def log_unchanged_refl
      dest!: sgtv_log_unchanged intro: log_unchanged_trans
      split: option.splits sum.splits prod.splits if_splits)

lemma update_family_loop_log:
  "for_each (update_family ar cfg t) xs c = Inr c' \<Longrightarrow> log_unchanged (self c) (self c')"
  by (erule for_each_log_unchanged [rotated]) (erule update_family_log)

lemma update_product_log:
  "update_product ar cfg t x c = Inr c' \<Longrightarrow> log_unchanged (self c) (self c')"
  by (auto simp: update_product_def then_do_def log_unchanged_refl
      dest!: sgtv_log_unchanged intro: log_unchanged_trans
      split: option.splits sum.splits prod.splits if_splits)

lemma update_product_loop_log:
  "for_each (update_product ar cfg t) xs c = Inr c' \<Longrightarrow> log_unchanged (self c) (self c')"
  by (erule for_each_log_unchanged [rotated]) (erule update_product_log)

lemma update_warehouse_log:
  "update_warehouse ar cfg t x c = Inr c' \<Longrightarrow> log_unchanged (self c) (self c')"
  by (auto simp: update_warehouse_def then_do_def log_unchanged_refl
      dest!: sgtv_log_unchanged intro: log_unchanged_trans
      split: option.splits sum.splits prod.splits if_splits)

lemma update_warehouse_loop_log:
  "for_each (update_warehouse ar cfg t) xs c = Inr c' \<Longrightarrow> log_unchanged (self c) (self c')"
  by (erule for_each_log_unchanged [rotated]) (erule update_warehouse_log)

lemma update_supplier_log:
  "update_supplier ar cfg t x c = Inr c' \<Longrightarrow> log_unchanged (self c) (self c')"
  by (auto simp: update_supplier_def then_do_def log_unchanged_refl
      dest!: sgtv_log_unchanged intro: log_unchanged_trans
      split: option.splits sum.splits prod.splits if_splits)

lemma update_supplier_loop_log:
  "for_each (update_supplier ar cfg t) xs c = Inr c' \<Longrightarrow> log_unchanged (self c) (self c')"
  by (erule for_each_log_unchanged [rotated]) (erule update_supplier_log)

lemma update_part_log:
  "update_part ar cfg t x c = Inr c' \<Longrightarrow> log_unchanged (self c) (self c')"
  by (auto simp: update_part_def then_do_def log_unchanged_refl
      dest!: sgtv_log_unchanged intro: log_unchanged_trans
      split: option.splits sum.splits prod.splits if_splits)

lemma update_part_loop_log:
  "for_each (update_part ar cfg t) xs c = Inr c' \<Longrightarrow> log_unchanged (self c) (self c')"
  by (erule for_each_log_unchanged [rotated]) (erule update_part_log)

lemma update_edge_log:
  "update_edge ar cfg t u v (a, d, s) = Inr (a', d', s') \<Longrightarrow> log_unchanged s s'"
  by (auto simp: update_edge_def then_do_def log_unchanged_refl
      dest!: sgtv_log_unchanged intro: log_unchanged_trans
      split: option.splits sum.splits prod.splits)

lemma update_edges_log:
  "update_edges ar cfg t es (d, s) = Inr (es', d', s') \<Longrightarrow> log_unchanged s s'"
proof (induction es arbitrary: d s es' d' s')
  case Nil
  then show ?case by (simp add: log_unchanged_refl)
next
  case (Cons e es)
  from Cons.prems obtain a d1 s1 es1 where
    a: "update_edge ar cfg t (fst (fst e)) (snd (fst e)) (snd e, d, s) = Inr (a, d1, s1)"
    and b: "update_edges ar cfg t es (d1, s1) = Inr (es1, d', s')"
    by (auto simp: then_do_def split: sum.splits prod.splits)
  show ?case using update_edge_log [OF a] Cons.IH [OF b] by (rule log_unchanged_trans)
qed

lemma update_edge_attributes_log:
  "update_edge_attributes ar cfg t c = Inr c' \<Longrightarrow> log_unchanged (self c) (self c')"
  by (auto simp: update_edge_attributes_def then_do_def dest!: update_edges_log
      split: sum.splits prod.splits)

lemma update_period_attributes_log:
  assumes "update_period_attributes ar cfg t c0 = Inr c'"
  shows "log_unchanged (self c0) (self c')"
proof -
  from assms obtain c1 c2 c3 c4 c5 c6 where
    1: "update_business_group ar cfg t c0 = Inr c1"
    and 2: "for_each (update_family ar cfg t) (product_families (self c1)) c1 = Inr c2"
    and 3: "for_each (update_product ar cfg t) (product_offerings (self c2)) c2 = Inr c3"
    and 4: "for_each (update_warehouse ar cfg t) (all_warehouses (self c3)) c3 = Inr c4"
    and 5: "for_each (update_supplier ar cfg t) (suppliers (self c4)) c4 = Inr c5"
    and 6: "for_each (update_part ar cfg t) (all_parts (self c5)) c5 = Inr c6"
    and 7: "update_edge_attributes ar cfg t c6 = Inr c'"
    unfolding update_period_attributes_def
    by (auto simp: then_do_def split: sum.splits)
  have "log_unchanged (self c0) (self c1)" using update_business_group_log [OF 1] .
  then have "log_unchanged (self c0) (self c2)"
    using update_family_loop_log [OF 2] log_unchanged_trans by blast
  then have "log_unchanged (self c0) (self c3)"
    using update_product_loop_log [OF 3] log_unchanged_trans by blast
  then have "log_unchanged (self c0) (self c4)"
    using update_warehouse_loop_log [OF 4] log_unchanged_trans by blast
  then have "log_unchanged (self c0) (self c5)"
    using update_supplier_loop_log [OF 5] log_unchanged_trans by blast
  then have "log_unchanged (self c0) (self c6)"
    using update_part_loop_log [OF 6] log_unchanged_trans by blast
  then show ?thesis
    using update_edge_attributes_log [OF 7] log_unchanged_trans by blast
qed

lemma set_distance_log:
  "set_distance ar cfg w f s = Inr s' \<Longrightarrow> log_unchanged s s'"
  by (auto simp: set_distance_def then_do_def random_randint_def log_unchanged_def Let_def
      split: option.splits sum.splits prod.splits if_splits val.splits)

lemma calculate_distances_log:
  assumes "calculate_distances ar cfg s = Inr s'"
  shows "log_unchanged s s'"
proof (rule for_each_rel [where R = log_unchanged, OF _ _ _ assms [unfolded calculate_distances_def]])
  fix w t t' assume "for_each (set_distance ar cfg w) (all_facilities s) t = Inr t'"
  then show "log_unchanged t t'"
    by (rule for_each_rel [where R = log_unchanged, rotated 3])
       (auto intro: log_unchanged_refl log_unchanged_trans set_distance_log)
qed (auto intro: log_unchanged_refl log_unchanged_trans)

text \<open>
  Claim C5 on the code. Incremental extension, \<open>simulate_next_period\<close>, appends nothing
  to the operations log and does not advance the log's clock, whatever attributes it
  writes into the new snapshot; the distance annotation, \<open>_calculate_distances\<close>, writes
  the \<open>distances\<close> attribute of the warehouse nodes and appends nothing either. For the
  small generator the business group's revenue and the edge's transportation cost change
  in the new snapshot while the log stays empty.
\<close>

theorem simulate_next_period_logs_nothing:
  assumes "simulate_next_period ar cfg s = Inr (t, s')"
  shows "operations_log s' = operations_log s \<and> timestamp s' = timestamp s
       \<and> (\<forall>s2. calculate_distances ar cfg s = Inr s2 \<longrightarrow> operations_log s2 = operations_log s)"
proof -
  from assms obtain g c where
    a: "update_period_attributes ar cfg t
          \<lparr>period_graph = g, period_data = [(''date'', Date (period_date cfg t))], self = s\<rparr> = Inr c"
    and b: "s' = (self c)\<lparr>temporal_graphs := dict_set (temporal_graphs (self c)) t (period_graph c),
                  temporal_data := dict_set (temporal_data (self c)) t (period_data c),
                  current_period := t\<rparr>"
    by (auto simp: simulate_next_period_def then_do_def Let_def
        split: list.splits option.splits sum.splits)
  have "log_unchanged s (self c)" using update_period_attributes_log [OF a] by simp
  then have "operations_log s' = operations_log s \<and> timestamp s' = timestamp s"
    by (simp add: b log_unchanged_def)
  moreover have "\<forall>s2. calculate_distances ar cfg s = Inr s2 \<longrightarrow> operations_log s2 = operations_log s"
    using calculate_distances_log by (auto simp: log_unchanged_def)
  ultimately show ?thesis by blast
qed

theorem simulate_next_period_logs_nothing_witness:
  "succeeded (simulate_next_period example_arith example_config small_generator)
   \<and> operations_log small_generator = []
   \<and> operations_log
        (generator_of (simulate_next_period example_arith example_config small_generator)) = []
   \<and> snapshot_node_attr small_generator 0 ''BG_001'' ''revenue'' = Some (Num 1000)
   \<and> snapshot_node_attr
        (generator_of (simulate_next_period example_arith example_config small_generator))
        1 ''BG_001'' ''revenue'' = Some (Num 1500)
   \<and> snapshot_edge_attr
        (generator_of (simulate_next_period example_arith example_config small_generator))
        1 ''S_001'' ''W_001'' ''transportation_cost'' = Some (Num 150)
   \<and> node_attr (G distance_generator) ''W_001'' ''distances'' = None
   \<and> node_attr (G (result_of (calculate_distances example_arith example_config distance_generator)))
        ''W_001'' ''distances'' = Some (Dist [(''F_001'', 10)])
   \<and> operations_log
        (result_of (calculate_distances example_arith example_config distance_generator)) = []"
proof -
  have ok: "succeeded (simulate_next_period example_arith example_config small_generator)"
    by code_simp
  have v: "operations_log small_generator = []"
    "snapshot_node_attr small_generator 0 ''BG_001'' ''revenue'' = Some (Num 1000)"
    "snapshot_node_attr
        (generator_of (simulate_next_period example_arith example_config small_generator))
        1 ''BG_001'' ''revenue'' = Some (Num 1500)"
    "snapshot_edge_attr
        (generator_of (simulate_next_period example_arith example_config small_generator))
        1 ''S_001'' ''W_001'' ''transportation_cost'' = Some (Num 150)"
    "node_attr (G distance_generator) ''W_001'' ''distances'' = None"
    "node_attr (G (result_of (calculate_distances example_arith example_config distance_generator)))
        ''W_001'' ''distances'' = Some (Dist [(''F_001'', 10)])"
    "operations_log
        (result_of (calculate_distances example_arith example_config distance_generator)) = []"
    by code_simp+
  show ?thesis
    using simulate_next_period_logs_nothing [OF succeeded_generator [OF ok]] ok v by simp
qed

text \<open>
  Claim C3 on the code. Two incremental extensions from period 0: the business group's
  revenue of period 2 is the value computed from the revenue of the entity record, 1000,
  not from the revenue 1500 of period 1, so node attributes do not compound; the edge's
  transportation cost of period 2 is computed from its value 150 of period 1 and does
  compound.
\<close>

theorem simulate_next_period_does_not_compound_nodes:
  "snapshot_node_attr small_generator 0 ''BG_001'' ''revenue'' = Some (Num 1000)
   \<and> snapshot_node_attr
        (generator_of (simulate_multiple_periods example_arith example_config 2 small_generator))
        1 ''BG_001'' ''revenue'' = Some (Num 1500)
   \<and> snapshot_node_attr
        (generator_of (simulate_multiple_periods example_arith example_config 2 small_generator))
        2 ''BG_001'' ''revenue'' = Some (Num 2000)
   \<and> temporal_value example_arith 1000 ''revenue'' 2 0 = Inr 2000
   \<and> temporal_value example_arith 1500 ''revenue'' 2 0 = Inr 3000
   \<and> snapshot_edge_attr
        (generator_of (simulate_multiple_periods example_arith example_config 2 small_generator))
        1 ''S_001'' ''W_001'' ''transportation_cost'' = Some (Num 150)
   \<and> snapshot_edge_attr
        (generator_of (simulate_multiple_periods example_arith example_config 2 small_generator))
        2 ''S_001'' ''W_001'' ''transportation_cost'' = Some (Num 300)"
  by code_simp

text \<open>
  Claim C2 on the code. After the wiring the warehouse's \<open>current_capacity\<close> in the graph
  is 60 and stays 60 in the snapshot of period 0, while the key of the same name in the
  warehouse's dictionary is still 0. Full regeneration computes the capacity of periods 1
  and 2 from the dictionary, so the snapshots hold the value computed from 0, not the one
  computed from the period-0 value 60. The edge's inventory level is computed from its
  period-0 value in both periods.
\<close>

theorem generate_temporal_data_warehouse_base:
  "snapshot_node_attr (result_of run_wiring_then_periods) 0 ''W_001'' ''current_capacity''
     = Some (Num 60)
   \<and> snapshot_node_attr (result_of run_wiring_then_periods) 1 ''W_001'' ''current_capacity''
     = Some (Num 0)
   \<and> snapshot_node_attr (result_of run_wiring_then_periods) 2 ''W_001'' ''current_capacity''
     = Some (Num 0)
   \<and> temporal_value example_arith 60 ''capacity'' 1 0 = Inr 90
   \<and> snapshot_edge_attr (result_of run_wiring_then_periods) 0 ''W_001'' ''P_001''
        ''inventory_level'' = Some (Num 60)
   \<and> snapshot_edge_attr (result_of run_wiring_then_periods) 1 ''W_001'' ''P_001''
        ''inventory_level'' = Some (Num 90)
   \<and> snapshot_edge_attr (result_of run_wiring_then_periods) 2 ''W_001'' ''P_001''
        ''inventory_level'' = Some (Num 120)"
  by code_simp

section \<open>Properties of the topology builder\<close>

lemma map_of_dict_set: "map_of (dict_set d k v) k' = (if k' = k then Some v else map_of d k')"
  by (induction d) auto

lemma map_of_insert_edge:
  "map_of es k = None \<Longrightarrow>
   map_of (insert_edge pos es (k, a)) k' = (if k' = k then Some a else map_of es k')"
  by (induction es) (auto split: if_splits)

lemma nodes_add_node_if_missing: "map_of (nodes (add_node_if_missing g n)) n \<noteq> None"
  by (auto simp: add_node_if_missing_def map_add_def split: option.splits)

lemma nodes_add_node_if_missing_mono:
  "map_of (nodes g) m \<noteq> None \<Longrightarrow> map_of (nodes (add_node_if_missing g n)) m \<noteq> None"
  by (auto simp: add_node_if_missing_def map_add_def split: option.splits)

lemma edges_add_node_if_missing: "edges (add_node_if_missing g n) = edges g"
  by (simp add: add_node_if_missing_def split: option.splits)

lemma add_edge_source: "map_of (nodes (add_edge g u v a)) u \<noteq> None"
proof -
  have "map_of (nodes (add_node_if_missing (add_node_if_missing g u) v)) u \<noteq> None"
    by (intro nodes_add_node_if_missing_mono nodes_add_node_if_missing)
  then show ?thesis by (auto simp: add_edge_def Let_def split: option.splits)
qed

lemma add_edge_attr2:
  assumes "k1 \<noteq> k2"
  shows "edge_attr (add_edge g u v [(k1, x1), (k2, x2)]) u v k1 = Some x1"
  using assms
  by (auto simp: edge_attr_def add_edge_def Let_def map_of_dict_set map_of_insert_edge
      split: option.splits)

lemma set_node_attr_ok:
  "map_of (nodes g) n \<noteq> None \<Longrightarrow>
   \<exists>g'. set_node_attr g n key v = Inr g' \<and> edges g' = edges g"
  by (auto simp: set_node_attr_def split: option.splits)

lemma edge_attr_edges: "edges g' = edges g \<Longrightarrow> edge_attr g' u v k = edge_attr g u v k"
  by (simp add: edge_attr_def)

text \<open>
  Claim C7, as stated, fails: a warehouse of capacity 60 with nothing stored draws an
  inventory of 100 for its part, and the edge is added with an inventory level of 60,
  below the draw.
\<close>

theorem store_part_clips_counterexample:
  "value_of (random_randint (INVENTORY_RANGE example_config) (warehouse_generator\<lparr>rng := [50, 0]\<rparr>))
     = Inr 100
   \<and> w_max_capacity example_warehouse = 60
   \<and> edge_attr
        (G (result_of
              (connect_warehouses_to_parts example_arith example_config warehouse_generator)))
        ''W_001'' ''P_001'' ''inventory_level'' = Some (Num 60)"
  by code_simp

text \<open>
  Claim C7, amended. During warehouse-to-part wiring the inventory level of an assignment
  is the minimum of the sampled draw and the warehouse's remaining capacity
  (\<open>max_capacity\<close> minus the accumulated inventory). The assignment is skipped exactly
  when that minimum is not positive; otherwise the edge is added with that level, which
  is the draw clipped to the remaining capacity, and the accumulated inventory grows by
  it.
\<close>

theorem store_part_clips:
  assumes "random_randint (INVENTORY_RANGE cfg) s = Inr (drawn, s1)"
  shows "(min drawn (w_max_capacity w - cur) \<le> 0 \<longrightarrow>
            store_part ar cfg w p (cur, s) = Inr (cur, s1))
       \<and> (0 < min drawn (w_max_capacity w - cur) \<longrightarrow>
            (\<exists>s'. store_part ar cfg w p (cur, s) =
                     Inr (cur + min drawn (w_max_capacity w - cur), s')
                 \<and> edge_attr (G s') (w_id w) (p_id p) ''inventory_level'' =
                     Some (Num (real_of_int (min drawn (w_max_capacity w - cur))))))"
proof (intro conjI impI)
  assume "min drawn (w_max_capacity w - cur) \<le> 0"
  then show "store_part ar cfg w p (cur, s) = Inr (cur, s1)"
    using assms by (simp add: store_part_def then_do_def Let_def)
next
  assume pos: "0 < min drawn (w_max_capacity w - cur)"
  define lvl where "lvl = min drawn (w_max_capacity w - cur)"
  obtain c s2 where u: "random_uniform ar (COST_RANGE cfg) s1 = (c, s2)"
    by (cases "random_uniform ar (COST_RANGE cfg) s1")
  define ed where "ed = [(''inventory_level'', Num (real_of_int lvl)), (''storage_cost'', Num c)]"
  define g3 where "g3 = add_edge (G s2) (w_id w) (p_id p) ed"
  have "map_of (nodes g3) (w_id w) \<noteq> None" unfolding g3_def by (rule add_edge_source)
  then obtain g' where g': "set_node_attr g3 (w_id w) ''current_capacity''
        (Num (real_of_int (cur + lvl))) = Inr g'" and e: "edges g' = edges g3"
    using set_node_attr_ok by blast
  have a: "edge_attr g3 (w_id w) (p_id p) ''inventory_level'' = Some (Num (real_of_int lvl))"
    unfolding g3_def ed_def by (rule add_edge_attr2) simp
  have r: "store_part ar cfg w p (cur, s) =
      Inr (cur + lvl,
        log_node_operation
          ((log_edge_operation (s2\<lparr>G := g3\<rparr>) ''create'' (w_id w) (p_id p) ed
             ''WAREHOUSE_PARTS'')\<lparr>G := g'\<rparr>)
          ''update'' (w_id w) ''WAREHOUSE''
          [(''current_capacity'', Num (real_of_int (cur + lvl)))])"
    using assms pos u g'
    by (simp add: store_part_def then_do_def Let_def lvl_def [symmetric] ed_def [symmetric]
        g3_def [symmetric] log_edge_operation_def)
  show "\<exists>s'. store_part ar cfg w p (cur, s) = Inr (cur + min drawn (w_max_capacity w - cur), s')
      \<and> edge_attr (G s') (w_id w) (p_id p) ''inventory_level'' =
          Some (Num (real_of_int (min drawn (w_max_capacity w - cur))))"
    using r a edge_attr_edges [OF e]
    by (simp add: lvl_def log_node_operation_def)
qed

theorem store_part_clips_witness:
  "random_randint (INVENTORY_RANGE example_config) (warehouse_generator\<lparr>rng := [50, 0]\<rparr>) =
     Inr (100, warehouse_generator\<lparr>rng := [0]\<rparr>)
   \<and> (\<exists>s'. store_part example_arith example_config example_warehouse (example_part ''P_001'')
               (0, warehouse_generator\<lparr>rng := [50, 0]\<rparr>) = Inr (60, s')
          \<and> edge_attr (G s') ''W_001'' ''P_001'' ''inventory_level'' = Some (Num 60))"
proof -
  have h: "random_randint (INVENTORY_RANGE example_config) (warehouse_generator\<lparr>rng := [50, 0]\<rparr>) =
     Inr (100, warehouse_generator\<lparr>rng := [0]\<rparr>)"
    by (simp add: random_randint_def example_config_def draw_def warehouse_generator_def
        empty_generator_def)
  show ?thesis
    using store_part_clips [OF h, of example_warehouse 0 example_arith "example_part ''P_001''"] h
    by (simp add: example_warehouse_def example_part_def)
qed

text \<open>
  Claim C6 on the code. A budget of 14 nodes gives four raw parts, two subassembly parts
  and one external facility. When the facility's draw for the number of subassemblies it
  produces is 3, \<open>random.sample\<close> is asked for three of two parts and
  \<open>_connect_parts_to_facilities\<close> raises \<open>ValueError\<close>: the sample size is not
  clamped to the population there.
\<close>

theorem connect_parts_to_facilities_sample_error:
  "calculate_node_distribution 14 =
     Inr \<lparr>nc_parts = 7, nc_suppliers = 2, nc_warehouses = 2, nc_facilities = 2,
          pd_raw = 4, pd_subassembly = 2, sd_small = 0, sd_medium = 0, sd_large = 0,
          wd_supplier = 0, wd_subassembly = 0, wd_lam = 0, fd_external = 1, fd_lam = 0\<rparr>
   \<and> int (length (parts_raw facility_generator)) = 4
   \<and> int (length (parts_subassembly facility_generator)) = 2
   \<and> int (length (facilities_external facility_generator)) = 1
   \<and> connect_parts_to_facilities example_arith example_config facility_generator
       = Inl ValueError"
  by code_simp

section \<open>Properties of the part updates\<close>













section \<open>The capacity of warehouses\<close>













































lemma warehouses_kept_trans:
  "warehouses_kept s s' \<Longrightarrow> warehouses_kept s' s'' \<Longrightarrow> warehouses_kept s s''"
  by (simp add: warehouses_kept_def)










end
